theory Spec2Isabelle
  imports Complex_Main
begin

section \<open>Values held in a spreadsheet-backed frame\<close>

text \<open>
  The hour columns hold numbers. A number is a finite value or one of the three special
  values that pandas (numpy float64) produces on division by zero. Finite values are
  exact rationals: rounding is not modelled, and zero carries no sign (it acts as +0).
\<close>

datatype fnum = Fin rat | PosInf | NegInf | NaN

fun inf_signed :: "bool \<Rightarrow> fnum" where
  "inf_signed True = PosInf"
| "inf_signed False = NegInf"

fun fadd :: "fnum \<Rightarrow> fnum \<Rightarrow> fnum" where
  "fadd (Fin a) (Fin b) = Fin (a + b)"
| "fadd (Fin a) PosInf = PosInf"
| "fadd (Fin a) NegInf = NegInf"
| "fadd PosInf (Fin b) = PosInf"
| "fadd PosInf PosInf = PosInf"
| "fadd PosInf NegInf = NaN"
| "fadd NegInf (Fin b) = NegInf"
| "fadd NegInf NegInf = NegInf"
| "fadd NegInf PosInf = NaN"
| "fadd NaN y = NaN"
| "fadd x NaN = NaN"

fun fmul :: "fnum \<Rightarrow> fnum \<Rightarrow> fnum" where
  "fmul (Fin a) (Fin b) = Fin (a * b)"
| "fmul (Fin a) PosInf = (if a = 0 then NaN else inf_signed (0 < a))"
| "fmul (Fin a) NegInf = (if a = 0 then NaN else inf_signed (a < 0))"
| "fmul PosInf (Fin b) = (if b = 0 then NaN else inf_signed (0 < b))"
| "fmul NegInf (Fin b) = (if b = 0 then NaN else inf_signed (b < 0))"
| "fmul PosInf PosInf = PosInf"
| "fmul PosInf NegInf = NegInf"
| "fmul NegInf PosInf = NegInf"
| "fmul NegInf NegInf = PosInf"
| "fmul NaN y = NaN"
| "fmul x NaN = NaN"

fun fdiv :: "fnum \<Rightarrow> fnum \<Rightarrow> fnum" where
  "fdiv (Fin a) (Fin b) =
     (if b \<noteq> 0 then Fin (a / b) else if a = 0 then NaN else inf_signed (0 < a))"
| "fdiv (Fin a) PosInf = Fin 0"
| "fdiv (Fin a) NegInf = Fin 0"
| "fdiv PosInf (Fin b) = inf_signed (0 \<le> b)"
| "fdiv NegInf (Fin b) = inf_signed (b < 0)"
| "fdiv PosInf PosInf = NaN"
| "fdiv PosInf NegInf = NaN"
| "fdiv NegInf PosInf = NaN"
| "fdiv NegInf NegInf = NaN"
| "fdiv NaN y = NaN"
| "fdiv x NaN = NaN"

text \<open>
  A cell as \<open>pd.read_excel\<close> and the loaders produce it: a number (a blank cell is
  \<open>Num NaN\<close>), a string, a timestamp (day number since the epoch and the time within
  the day), a calendar date (what \<open>.dt.date\<close> yields) or the missing timestamp.
\<close>

datatype cell = Num fnum | Str string | Timestamp int nat | Date int | NaT

datatype error =
  KeyError | TypeError | AttributeError | ParseError | ReadError | UnsupportedOperation

type_synonym series = "cell list"

text \<open>
  A DataFrame is its ordered list of named columns. \<open>pd.read_excel\<close> renames repeated
  headers, so the names of a frame read from a sheet are distinct and its columns have one
  length.
\<close>

type_synonym dataframe = "(string \<times> series) list"

definition df_columns :: "dataframe \<Rightarrow> string list" where
  "df_columns df = map fst df"

definition df_len :: "dataframe \<Rightarrow> nat" where
  "df_len df = (case df of [] \<Rightarrow> 0 | (c, xs) # rest \<Rightarrow> length xs)"

definition df_empty :: "dataframe \<Rightarrow> bool" where
  "df_empty df \<longleftrightarrow> df = [] \<or> df_len df = 0"

text \<open>\<open>df[col]\<close>: the column, or KeyError.\<close>

definition getitem :: "dataframe \<Rightarrow> string \<Rightarrow> error + series" where
  "getitem df col = (case map_of df col of None \<Rightarrow> Inl KeyError | Some xs \<Rightarrow> Inr xs)"

text \<open>\<open>df[col] = values\<close>: replaces the column where it stands, or appends it.\<close>

fun setitem :: "dataframe \<Rightarrow> string \<Rightarrow> series \<Rightarrow> dataframe" where
  "setitem [] col v = [(col, v)]"
| "setitem ((c, xs) # df) col v =
     (if c = col then (c, v) # df else (c, xs) # setitem df col v)"

text \<open>\<open>df[col] = scalar\<close>: the scalar on every row.\<close>

definition setitem_scalar :: "dataframe \<Rightarrow> string \<Rightarrow> cell \<Rightarrow> dataframe" where
  "setitem_scalar df col v = setitem df col (replicate (df_len df) v)"

text \<open>\<open>df.drop(col, axis=1)\<close>.\<close>

definition drop_column :: "dataframe \<Rightarrow> string \<Rightarrow> error + dataframe" where
  "drop_column df col =
     (if col \<in> set (df_columns df) then Inr (filter (\<lambda>(c, xs). c \<noteq> col) df)
      else Inl KeyError)"

text \<open>\<open>df[cols]\<close>: the listed columns in the listed order, KeyError if one is absent.\<close>

fun getitem_columns :: "dataframe \<Rightarrow> string list \<Rightarrow> error + dataframe" where
  "getitem_columns df [] = Inr []"
| "getitem_columns df (c # cs) =
     (case map_of df c of
        None \<Rightarrow> Inl KeyError
      | Some xs \<Rightarrow>
          (case getitem_columns df cs of
             Inl e \<Rightarrow> Inl e
           | Inr rest \<Rightarrow> Inr ((c, xs) # rest)))"

text \<open>\<open>df[mask]\<close>: the rows whose entry in the boolean series is True.\<close>

definition filter_rows :: "bool list \<Rightarrow> dataframe \<Rightarrow> dataframe" where
  "filter_rows keep df = map (\<lambda>(c, xs). (c, map fst (filter snd (zip xs keep)))) df"

section \<open>config.py\<close>

definition DB_COLUMNS :: "string list" where
  "DB_COLUMNS =
     [''Week_Start'', ''Week_End'', ''Story_ID'', ''Developer_Name'', ''Team_Name'',
      ''Original_Estimate_Hours'', ''Efficiency_Gained_Hours'', ''Copilot_Used'',
      ''Category'', ''Areas_of_Efficiency'', ''Notes_Observations'']"

section \<open>utils.py\<close>

text \<open>\<open>s.replace(old, new)\<close> for one-character \<open>old\<close> and \<open>new\<close>.\<close>

definition str_replace :: "char \<Rightarrow> char \<Rightarrow> string \<Rightarrow> string" where
  "str_replace old new s = map (\<lambda>c. if c = old then new else c) s"

definition get_team_excel_file :: "string \<Rightarrow> string" where
  "get_team_excel_file team_name =
     ''efficiency_data_'' @ str_replace (CHR '' '') (CHR ''_'') team_name @ ''.xlsx''"

text \<open>The token parameter defaults to None.\<close>

definition verify_engineer_access :: "string \<Rightarrow> string \<Rightarrow> string option \<Rightarrow> bool" where
  "verify_engineer_access developer_name team_name provided_token = True"

section \<open>Errors inside a try block\<close>

definition bind_err :: "error + 'a \<Rightarrow> ('a \<Rightarrow> error + 'b) \<Rightarrow> error + 'b" where
  "bind_err m f = (case m of Inl e \<Rightarrow> Inl e | Inr x \<Rightarrow> f x)"

text \<open>An elementwise operation on a column stops at the first cell that raises.\<close>

fun map_err :: "('a \<Rightarrow> error + 'b) \<Rightarrow> 'a list \<Rightarrow> error + 'b list" where
  "map_err f [] = Inr []"
| "map_err f (x # xs) =
     (case f x of
        Inl e \<Rightarrow> Inl e
      | Inr y \<Rightarrow> (case map_err f xs of Inl e \<Rightarrow> Inl e | Inr ys \<Rightarrow> Inr (y # ys)))"

section \<open>data_manager.py: DataManager\<close>

text \<open>
  What the storage holds under a path or key, as a loader sees it: nothing
  (\<open>os.path.exists\<close> is False; \<open>head_object\<close> raises ClientError), a payload that cannot be
  read (\<open>pd.read_excel\<close> or \<open>get_object\<close> raises), or a sheet that \<open>pd.read_excel\<close> turns
  into a frame.
\<close>

datatype stored = Missing | Unreadable | Table dataframe

definition path_exists :: "stored \<Rightarrow> bool" where
  "path_exists s \<longleftrightarrow> s \<noteq> Missing"

fun read_excel :: "stored \<Rightarrow> error + dataframe" where
  "read_excel Missing = Inl ReadError"
| "read_excel Unreadable = Inl ReadError"
| "read_excel (Table df) = Inr df"

definition create_empty_dataframe :: dataframe where
  "create_empty_dataframe = map (\<lambda>c. (c, [])) DB_COLUMNS"

text \<open>
  \<open>pd.to_datetime\<close> keeps a timestamp, turns a date into midnight of its day and a blank
  cell into NaT. How it reads a string or a number is pandas' business: that part is the
  parameter \<open>parse\<close>, which rejects the cell, reads it as missing, or gives its timestamp.
\<close>

datatype parsed = Invalid | Null | Stamp int nat

type_synonym datetime_parser = "cell \<Rightarrow> parsed"

fun to_datetime_cell :: "datetime_parser \<Rightarrow> cell \<Rightarrow> error + cell" where
  "to_datetime_cell parse (Timestamp d t) = Inr (Timestamp d t)"
| "to_datetime_cell parse (Date d) = Inr (Timestamp d 0)"
| "to_datetime_cell parse NaT = Inr NaT"
| "to_datetime_cell parse (Num NaN) = Inr NaT"
| "to_datetime_cell parse c =
     (case parse c of
        Invalid \<Rightarrow> Inl ParseError
      | Null \<Rightarrow> Inr NaT
      | Stamp d t \<Rightarrow> Inr (Timestamp d t))"

text \<open>\<open>.dt.date\<close> on one cell of a datetime column.\<close>

fun dt_date_cell :: "cell \<Rightarrow> error + cell" where
  "dt_date_cell (Timestamp d t) = Inr (Date d)"
| "dt_date_cell NaT = Inr NaT"
| "dt_date_cell c = Inl AttributeError"

text \<open>\<open>cell + pd.Timedelta(days=n)\<close>.\<close>

fun add_days_cell :: "int \<Rightarrow> cell \<Rightarrow> error + cell" where
  "add_days_cell n (Date d) = Inr (Date (d + n))"
| "add_days_cell n (Timestamp d t) = Inr (Timestamp (d + n) t)"
| "add_days_cell n NaT = Inr NaT"
| "add_days_cell n c = Inl TypeError"

text \<open>The test both loaders make for the old single-column layout.\<close>

definition is_legacy :: "dataframe \<Rightarrow> bool" where
  "is_legacy df \<longleftrightarrow>
     ''Week'' \<in> set (df_columns df) \<and> ''Week_Start'' \<notin> set (df_columns df)"

text \<open>Lines 31 to 33 of DataManager.load_excel_data.\<close>

definition convert_legacy_week :: "datetime_parser \<Rightarrow> dataframe \<Rightarrow> error + dataframe" where
  "convert_legacy_week parse df =
     bind_err (getitem df ''Week'') (\<lambda>week.
     bind_err (map_err (to_datetime_cell parse) week) (\<lambda>stamps.
     bind_err (map_err dt_date_cell stamps) (\<lambda>dates.
     let df1 = setitem df ''Week_Start'' dates in
     bind_err (getitem df1 ''Week_Start'') (\<lambda>week_start.
     bind_err (map_err (add_days_cell 6) week_start) (\<lambda>week_end.
     drop_column (setitem df1 ''Week_End'' week_end) ''Week'')))))"

text \<open>\<open>for col in cols: if col not in df.columns: df[col] = ''\<close>.\<close>

fun ensure_columns :: "string list \<Rightarrow> dataframe \<Rightarrow> dataframe" where
  "ensure_columns [] df = df"
| "ensure_columns (col # cols) df =
     ensure_columns cols
       (if col \<notin> set (df_columns df) then setitem_scalar df col (Str []) else df)"

text \<open>The body of the try block.\<close>

definition load_excel_data_try :: "datetime_parser \<Rightarrow> stored \<Rightarrow> error + dataframe" where
  "load_excel_data_try parse s =
     bind_err (read_excel s) (\<lambda>df.
     bind_err (if is_legacy df then convert_legacy_week parse df else Inr df) (\<lambda>df1.
     getitem_columns (ensure_columns DB_COLUMNS df1) DB_COLUMNS))"

definition load_excel_data :: "datetime_parser \<Rightarrow> stored \<Rightarrow> error + dataframe" where
  "load_excel_data parse s =
     (if \<not> path_exists s then Inr create_empty_dataframe
      else (case load_excel_data_try parse s of
              Inl e \<Rightarrow> Inr create_empty_dataframe
            | Inr df \<Rightarrow> Inr df))"

section \<open>s3_data_manager.py: S3DataManager\<close>

definition s3_create_empty_dataframe :: dataframe where
  "s3_create_empty_dataframe =
     map (\<lambda>c. (c, []))
       [''Week_Start'', ''Week_End'', ''Story_ID'', ''Developer_Name'', ''Team_Name'',
        ''Original_Estimate_Hours'', ''Efficiency_Gained_Hours'', ''Copilot_Used'',
        ''Category'', ''Areas_of_Efficiency'', ''Notes_Observations'']"

definition file_exists :: "stored \<Rightarrow> bool" where
  "file_exists s \<longleftrightarrow> s \<noteq> Missing"

text \<open>Lines 91 and 92: both new columns are the old Week column.\<close>

definition s3_copy_legacy_week :: "dataframe \<Rightarrow> error + dataframe" where
  "s3_copy_legacy_week df =
     bind_err (getitem df ''Week'') (\<lambda>week.
     let df1 = setitem df ''Week_Start'' week in
     bind_err (getitem df1 ''Week'') (\<lambda>week'.
     Inr (setitem df1 ''Week_End'' week')))"

text \<open>
  \<open>get_object\<close> hands back the object's content as a botocore StreamingBody, a stream
  that cannot seek. \<open>pd.read_excel\<close> seeks in the stream it is given, so line 87,
  \<open>pd.read_excel(response['Body'])\<close>, raises for every stored content, a well-formed
  sheet included. (The two JSON loaders of the module call \<open>.read()\<close> on the body before
  they parse it; this loader does not.)
\<close>

definition read_excel_streaming_body :: "stored \<Rightarrow> error + dataframe" where
  "read_excel_streaming_body s = Inl UnsupportedOperation"

definition s3_load_excel_data_try :: "stored \<Rightarrow> error + dataframe" where
  "s3_load_excel_data_try s =
     (if \<not> file_exists s then Inr s3_create_empty_dataframe
      else
        bind_err (read_excel_streaming_body s) (\<lambda>df.
        bind_err (if is_legacy df then s3_copy_legacy_week df else Inr df) (\<lambda>df1.
        Inr (ensure_columns (df_columns s3_create_empty_dataframe) df1))))"

definition s3_load_excel_data :: "stored \<Rightarrow> error + dataframe" where
  "s3_load_excel_data s =
     (case s3_load_excel_data_try s of
        Inl e \<Rightarrow> Inr s3_create_empty_dataframe
      | Inr df \<Rightarrow> Inr df)"

section \<open>engineer_interface.py\<close>

text \<open>
  Lines 166 to 178 of the entry form: the hours saved are the number typed in when
  the assistant was used, and 0.0 otherwise.
\<close>

definition efficiency_gained :: "string \<Rightarrow> rat \<Rightarrow> rat" where
  "efficiency_gained copilot_used time_saved =
     (if copilot_used = ''Yes'' then time_saved else 0)"

fun join_comma :: "string list \<Rightarrow> string" where
  "join_comma [] = []"
| "join_comma [a] = a"
| "join_comma (a # b # rest) = a @ '', '' @ join_comma (b # rest)"

text \<open>
  The row \<open>_save_entry\<close> builds. The two week strings are the \<open>strftime\<close> renderings of the
  selected Monday and Sunday.
\<close>

definition new_row ::
  "string \<Rightarrow> string \<Rightarrow> string \<Rightarrow> string \<Rightarrow> string \<Rightarrow> rat \<Rightarrow> rat \<Rightarrow> string \<Rightarrow> string \<Rightarrow>
   string list \<Rightarrow> string \<Rightarrow> (string \<times> cell) list" where
  "new_row week_start week_end story_id developer_name team_name original_estimate gained
     copilot_used category selected_areas notes =
     [(''Week_Start'', Str week_start),
      (''Week_End'', Str week_end),
      (''Story_ID'', Str story_id),
      (''Developer_Name'', Str developer_name),
      (''Team_Name'', Str team_name),
      (''Original_Estimate_Hours'', Num (Fin original_estimate)),
      (''Efficiency_Gained_Hours'', Num (Fin gained)),
      (''Copilot_Used'', Str copilot_used),
      (''Category'', Str category),
      (''Areas_of_Efficiency'',
         Str (if selected_areas \<noteq> [] then join_comma selected_areas else [])),
      (''Notes_Observations'', Str notes)]"

text \<open>The row the form hands to \<open>_save_entry\<close> on submission.\<close>

definition submitted_row ::
  "string \<Rightarrow> string \<Rightarrow> string \<Rightarrow> string \<Rightarrow> string \<Rightarrow> rat \<Rightarrow> rat \<Rightarrow> string \<Rightarrow> string \<Rightarrow>
   string list \<Rightarrow> string \<Rightarrow> (string \<times> cell) list" where
  "submitted_row week_start week_end story_id developer_name team_name original_estimate
     time_saved copilot_used category selected_areas notes =
     new_row week_start week_end story_id developer_name team_name original_estimate
       (efficiency_gained copilot_used time_saved) copilot_used category selected_areas notes"

text \<open>Line 31 of \<open>render\<close>: the rows of one developer.\<close>

definition engineer_rows :: "string \<Rightarrow> dataframe \<Rightarrow> error + dataframe" where
  "engineer_rows developer_name df =
     (if \<not> df_empty df then
        bind_err (getitem df ''Developer_Name'') (\<lambda>names.
        Inr (filter_rows (map (\<lambda>c. c = Str developer_name) names) df))
      else Inr [])"

text \<open>
  Division of two columns of one frame: float division on numbers; any other cell makes
  the column an object column, on which the division raises.
\<close>

fun cell_truediv :: "cell \<times> cell \<Rightarrow> error + fnum" where
  "cell_truediv (Num a, Num b) = Inr (fdiv a b)"
| "cell_truediv (x, y) = Inl TypeError"

definition series_truediv :: "series \<Rightarrow> series \<Rightarrow> error + fnum list" where
  "series_truediv xs ys = map_err cell_truediv (zip xs ys)"

text \<open>\<open>Series.mean()\<close>: NaN entries are skipped; the mean of nothing is NaN.\<close>

definition series_mean :: "fnum list \<Rightarrow> fnum" where
  "series_mean xs =
     (let vals = filter (\<lambda>x. x \<noteq> NaN) xs
      in if vals = [] then NaN
         else fdiv (foldl fadd (Fin 0) vals) (Fin (of_nat (length vals))))"

text \<open>Lines 296 and 297 of \<open>_render_dashboard\<close>.\<close>

definition engineer_avg_efficiency :: "dataframe \<Rightarrow> error + fnum" where
  "engineer_avg_efficiency engineer_df =
     bind_err (getitem engineer_df ''Efficiency_Gained_Hours'') (\<lambda>gained.
     bind_err (getitem engineer_df ''Original_Estimate_Hours'') (\<lambda>estimate.
     bind_err (series_truediv gained estimate) (\<lambda>ratio.
     Inr (series_mean (map (\<lambda>x. fmul x (Fin 100)) ratio)))))"

text \<open>\<open>_render_dashboard\<close> shows no metric for an empty frame.\<close>

definition render_dashboard_avg_efficiency :: "dataframe \<Rightarrow> (error + fnum) option" where
  "render_dashboard_avg_efficiency engineer_df =
     (if df_empty engineer_df then None else Some (engineer_avg_efficiency engineer_df))"

section \<open>admin_interface.py: AdminDashboardPage\<close>

text \<open>Lines 472 and 473 of \<open>_render_key_metrics\<close>.\<close>

definition admin_avg_efficiency :: "dataframe \<Rightarrow> error + fnum" where
  "admin_avg_efficiency combined_df =
     bind_err (getitem combined_df ''Efficiency_Gained_Hours'') (\<lambda>gained.
     bind_err (getitem combined_df ''Original_Estimate_Hours'') (\<lambda>estimate.
     bind_err (series_truediv gained estimate) (\<lambda>ratio.
     Inr (series_mean (map (\<lambda>x. fmul x (Fin 100)) ratio)))))"

text \<open>The mean of a boolean column counts True as 1 and False as 0.\<close>

definition bool_mean :: "bool list \<Rightarrow> fnum" where
  "bool_mean bs =
     (if bs = [] then NaN
      else Fin (of_nat (length (filter (\<lambda>b. b) bs)) / of_nat (length bs)))"

text \<open>Line 477 of \<open>_render_key_metrics\<close> (and line 456 of \<open>_aggregate_team_data\<close>).\<close>

definition copilot_usage :: "dataframe \<Rightarrow> error + fnum" where
  "copilot_usage combined_df =
     bind_err (getitem combined_df ''Copilot_Used'') (\<lambda>used.
     Inr (fmul (bool_mean (map (\<lambda>c. c = Str ''Yes'') used)) (Fin 100)))"

section \<open>Properties as the specification words them\<close>

text \<open>
  The assistant-used rate in the specification's words: the share of Yes among the rows
  whose value is neither missing nor blank, as a percentage.
\<close>

definition is_blank :: "cell \<Rightarrow> bool" where
  "is_blank c \<longleftrightarrow> c = Num NaN \<or> c = NaT \<or> c = Str []"

definition spec_assistant_used_rate :: "series \<Rightarrow> fnum" where
  "spec_assistant_used_rate used =
     fmul (bool_mean (map (\<lambda>c. c = Str ''Yes'') (filter (\<lambda>c. \<not> is_blank c) used))) (Fin 100)"

text \<open>
  The entry invariant of the data model on a frame: a row whose Copilot_Used is No has
  Efficiency_Gained_Hours 0.
\<close>

definition gain_allowed :: "cell \<times> cell \<Rightarrow> bool" where
  "gain_allowed ug = (if fst ug = Str ''No'' then snd ug = Num (Fin 0) else True)"

definition no_gain_without_assistant :: "dataframe \<Rightarrow> bool" where
  "no_gain_without_assistant df =
     (case map_of df ''Copilot_Used'' of
        None \<Rightarrow> True
      | Some used \<Rightarrow>
          (case map_of df ''Efficiency_Gained_Hours'' of
             None \<Rightarrow> True
           | Some gained \<Rightarrow> list_all gain_allowed (zip used gained)))"

section \<open>Example data\<close>

text \<open>The two entries of developer Grace Lee in team Platform Team.\<close>

definition grace_lee_entries :: dataframe where
  "grace_lee_entries =
     [(''Week_Start'', [Str ''2024-01-01'', Str ''2024-01-01'']),
      (''Week_End'', [Str ''2024-01-07'', Str ''2024-01-07'']),
      (''Story_ID'', [Str ''ENG-1'', Str ''ENG-2'']),
      (''Developer_Name'', [Str ''Grace Lee'', Str ''Grace Lee'']),
      (''Team_Name'', [Str ''Platform Team'', Str ''Platform Team'']),
      (''Original_Estimate_Hours'', [Num (Fin 10), Num (Fin 5)]),
      (''Efficiency_Gained_Hours'', [Num (Fin 3), Num (Fin 0)]),
      (''Copilot_Used'', [Str ''Yes'', Str ''No'']),
      (''Category'', [Str ''Testing'', Str ''Testing'']),
      (''Areas_of_Efficiency'', [Str ''Test Writing'', Str []]),
      (''Notes_Observations'', [Num NaN, Num NaN])]"

text \<open>A date parser that reads nothing.\<close>

definition parse_nothing :: datetime_parser where
  "parse_nothing c = Invalid"

section \<open>Partition keys\<close>

lemma str_replace_id: "old \<notin> set s \<Longrightarrow> str_replace old new s = s"
  by (induction s) (auto simp: str_replace_def)

lemma get_team_excel_file_eq_iff:
  "get_team_excel_file a = get_team_excel_file b \<longleftrightarrow>
   str_replace (CHR '' '') (CHR ''_'') a = str_replace (CHR '' '') (CHR ''_'') b"
  by (simp add: get_team_excel_file_def)

text \<open>
  C9 (as stated): the partition key is collision-free, distinct team names give distinct
  keys. It fails: the names "Team A" and "Team_A" are distinct and share the key
  "efficiency_data_Team_A.xlsx".
\<close>

theorem get_team_excel_file_collision:
  "''Team A'' \<noteq> ''Team_A'' \<and> get_team_excel_file ''Team A'' = get_team_excel_file ''Team_A''"
  by (simp add: get_team_excel_file_def str_replace_def)

text \<open>
  C9 (amended): the partition key is a function of the team name alone, with each space
  replaced by an underscore. Two names get the same key exactly when they are equal after
  that replacement, so the key is collision-free on team names that contain no underscore
  (and, likewise, on names that contain no space).
\<close>

theorem get_team_excel_file_injective_without_underscore:
  "(get_team_excel_file a = get_team_excel_file b \<longleftrightarrow>
      str_replace (CHR '' '') (CHR ''_'') a = str_replace (CHR '' '') (CHR ''_'') b) \<and>
   (CHR ''_'' \<notin> set a \<longrightarrow> CHR ''_'' \<notin> set b \<longrightarrow> a \<noteq> b \<longrightarrow>
      get_team_excel_file a \<noteq> get_team_excel_file b) \<and>
   (CHR '' '' \<notin> set a \<longrightarrow> CHR '' '' \<notin> set b \<longrightarrow> a \<noteq> b \<longrightarrow>
      get_team_excel_file a \<noteq> get_team_excel_file b)"
proof (intro conjI impI)
  show "get_team_excel_file a = get_team_excel_file b \<longleftrightarrow>
      str_replace (CHR '' '') (CHR ''_'') a = str_replace (CHR '' '') (CHR ''_'') b"
    by (rule get_team_excel_file_eq_iff)
next
  assume ua: "CHR ''_'' \<notin> set a" and ub: "CHR ''_'' \<notin> set b" and ne: "a \<noteq> b"
  have inj: "str_replace (CHR '' '') (CHR ''_'') x = str_replace (CHR '' '') (CHR ''_'') y
      \<Longrightarrow> CHR ''_'' \<notin> set x \<Longrightarrow> CHR ''_'' \<notin> set y \<Longrightarrow> x = y" for x y
  proof (induction x arbitrary: y)
    case Nil
    then show ?case by (simp add: str_replace_def)
  next
    case (Cons c cs)
    then obtain d ds where y: "y = d # ds"
      by (cases y) (auto simp: str_replace_def)
    from Cons.prems have hd: "(if c = CHR '' '' then CHR ''_'' else c) =
        (if d = CHR '' '' then CHR ''_'' else d)"
      and tl: "str_replace (CHR '' '') (CHR ''_'') cs = str_replace (CHR '' '') (CHR ''_'') ds"
      by (simp_all add: y str_replace_def)
    from Cons.prems y have "c \<noteq> CHR ''_''" "d \<noteq> CHR ''_''" by auto
    with hd have "c = d" by (auto split: if_splits)
    moreover from Cons.IH [OF tl] Cons.prems y have "cs = ds" by simp
    ultimately show ?case by (simp add: y)
  qed
  from inj [of a b] ua ub ne
  show "get_team_excel_file a \<noteq> get_team_excel_file b"
    by (auto simp: get_team_excel_file_eq_iff)
next
  assume "CHR '' '' \<notin> set a" "CHR '' '' \<notin> set b" "a \<noteq> b"
  then show "get_team_excel_file a \<noteq> get_team_excel_file b"
    by (simp add: get_team_excel_file_eq_iff str_replace_id)
qed

theorem get_team_excel_file_injective_witness:
  "CHR ''_'' \<notin> set ''Team A'' \<and> CHR ''_'' \<notin> set ''Team B'' \<and> ''Team A'' \<noteq> ''Team B'' \<and>
   CHR '' '' \<notin> set ''TeamA'' \<and> CHR '' '' \<notin> set ''TeamB'' \<and> ''TeamA'' \<noteq> ''TeamB'' \<and>
   get_team_excel_file ''Team A'' \<noteq> get_team_excel_file ''Team B'' \<and>
   get_team_excel_file ''TeamA'' \<noteq> get_team_excel_file ''TeamB''"
  using get_team_excel_file_injective_without_underscore [of "''Team A''" "''Team B''"]
    get_team_excel_file_injective_without_underscore [of "''TeamA''" "''TeamB''"]
  by (simp add: get_team_excel_file_def str_replace_def)

section \<open>Engineer access\<close>

text \<open>
  C10: verify_engineer_access returns True for every developer name, team name and token;
  two calls that differ only in the token give the same result.
\<close>

theorem verify_engineer_access_always_true:
  "verify_engineer_access developer_name team_name provided_token = True \<and>
   verify_engineer_access developer_name team_name token1 =
     verify_engineer_access developer_name team_name token2"
  by (simp add: verify_engineer_access_def)

section \<open>Dashboard metrics\<close>

text \<open>
  C1: for the two entries of Grace Lee (estimate 10, gained 3, used Yes; estimate 5,
  gained 0, used No) the average efficiency shown by the dashboards is the mean of the
  per-row percentages, 15, and not 30; the engineer view's and the admin view's
  computation agree on every frame. The engineer view shows the metric whenever the frame
  has rows.
\<close>

theorem average_efficiency_is_per_row_mean:
  "engineer_rows ''Grace Lee'' grace_lee_entries = Inr grace_lee_entries \<and>
   render_dashboard_avg_efficiency grace_lee_entries = Some (Inr (Fin 15)) \<and>
   admin_avg_efficiency grace_lee_entries = Inr (Fin 15) \<and>
   admin_avg_efficiency grace_lee_entries \<noteq> Inr (Fin 30) \<and>
   engineer_avg_efficiency df = admin_avg_efficiency df \<and>
   render_dashboard_avg_efficiency df =
     (if df_empty df then None else Some (admin_avg_efficiency df))"
proof -
  have rows: "engineer_rows ''Grace Lee'' grace_lee_entries = Inr grace_lee_entries"
    by (simp add: engineer_rows_def grace_lee_entries_def df_empty_def df_len_def getitem_def
        bind_err_def filter_rows_def)
  have same: "engineer_avg_efficiency d = admin_avg_efficiency d" for d
    by (simp add: engineer_avg_efficiency_def admin_avg_efficiency_def)
  have admin: "admin_avg_efficiency grace_lee_entries = Inr (Fin 15)"
    by (simp add: admin_avg_efficiency_def grace_lee_entries_def getitem_def bind_err_def
        series_truediv_def series_mean_def)
  have nonempty: "\<not> df_empty grace_lee_entries"
    by (simp add: grace_lee_entries_def df_empty_def df_len_def)
  from rows same admin nonempty show ?thesis
    by (simp add: render_dashboard_avg_efficiency_def)
qed

text \<open>
  C5 (as stated): rows whose Copilot_Used is missing or blank are left out of both the
  numerator and the denominator of the usage rate. It fails: on one Yes row and one blank
  row the dashboard shows 50, where the rate over the non-blank rows is 100.
\<close>

theorem copilot_usage_counts_blank_rows:
  "copilot_usage [(''Copilot_Used'', [Str ''Yes'', Num NaN])] = Inr (Fin 50) \<and>
   spec_assistant_used_rate [Str ''Yes'', Num NaN] = Fin 100"
  by (simp add: copilot_usage_def getitem_def bind_err_def bool_mean_def
      spec_assistant_used_rate_def is_blank_def)

text \<open>
  C5 (amended): the usage rate is the number of rows whose Copilot_Used is exactly Yes,
  divided by the number of all rows, times 100; every other row, blank and missing ones
  too, counts in the denominator like a No. With no rows the rate is NaN.
\<close>

theorem copilot_usage_over_all_rows:
  assumes "getitem df ''Copilot_Used'' = Inr used"
  shows "copilot_usage df =
     Inr (if used = [] then NaN
          else Fin (of_nat (length (filter (\<lambda>c. c = Str ''Yes'') used)) /
                    of_nat (length used) * 100))"
  using assms
  by (simp add: copilot_usage_def bind_err_def bool_mean_def comp_def)

theorem copilot_usage_over_all_rows_witness:
  "getitem [(''Copilot_Used'', [Str ''Yes'', Str [], Str ''No'', Num NaN])] ''Copilot_Used'' =
     Inr [Str ''Yes'', Str [], Str ''No'', Num NaN] \<and>
   copilot_usage [(''Copilot_Used'', [Str ''Yes'', Str [], Str ''No'', Num NaN])] = Inr (Fin 25)"
  using copilot_usage_over_all_rows
    [of "[(''Copilot_Used'', [Str ''Yes'', Str [], Str ''No'', Num NaN])]"
        "[Str ''Yes'', Str [], Str ''No'', Num NaN]"]
  by (simp add: getitem_def)

lemma sum_list_nonneg_zero:
  "\<forall>e\<in>set es. (0::rat) \<le> e \<Longrightarrow> sum_list es = 0 \<Longrightarrow> \<forall>e\<in>set es. e = 0"
  by (simp add: sum_list_nonneg_eq_0_iff)

lemma series_truediv_zero_estimate:
  "length gs = length es \<Longrightarrow> \<forall>e\<in>set es. e = 0 \<Longrightarrow> \<forall>g\<in>set gs. 0 \<le> g \<Longrightarrow>
   series_truediv (map (\<lambda>g. Num (Fin g)) gs) (map (\<lambda>e. Num (Fin e)) es) =
     Inr (map (\<lambda>g. if g = 0 then NaN else PosInf) gs)"
proof (induction gs es rule: list_induct2)
  case Nil
  then show ?case by (simp add: series_truediv_def)
next
  case (Cons g gs e es)
  then show ?case by (auto simp: series_truediv_def)
qed

lemma foldl_fadd_PosInf:
  "\<forall>x\<in>set xs. x = PosInf \<Longrightarrow> xs \<noteq> [] \<Longrightarrow> acc = Fin a \<or> acc = PosInf \<Longrightarrow>
   foldl fadd acc xs = PosInf"
proof (induction xs arbitrary: acc a)
  case Nil
  then show ?case by simp
next
  case (Cons x xs)
  then have x: "x = PosInf" by simp
  from Cons.prems(3) x have step: "fadd acc x = PosInf" by auto
  show ?case
  proof (cases "xs = []")
    case True
    with step show ?thesis by simp
  next
    case False
    with Cons.IH [of PosInf] Cons.prems(1) step show ?thesis by simp
  qed
qed

lemma series_mean_nan_or_inf:
  assumes "\<forall>x\<in>set xs. x = NaN \<or> x = PosInf"
  shows "series_mean xs = (if \<forall>x\<in>set xs. x = NaN then NaN else PosInf)"
proof -
  let ?vals = "filter (\<lambda>x. x \<noteq> NaN) xs"
  have all: "\<forall>x\<in>set ?vals. x = PosInf" using assms by auto
  show ?thesis
  proof (cases "?vals = []")
    case True
    then have "\<forall>x\<in>set xs. x = NaN" by (simp add: filter_empty_conv)
    with True show ?thesis by (simp add: series_mean_def)
  next
    case False
    then have ex: "\<not> (\<forall>x\<in>set xs. x = NaN)" by (simp add: filter_empty_conv)
    from foldl_fadd_PosInf [OF all False, of "Fin 0" 0]
    have "foldl fadd (Fin 0) ?vals = PosInf" by simp
    with False ex show ?thesis by (simp add: series_mean_def Let_def)
  qed
qed

text \<open>
  C6 (as stated): a group whose estimate hours sum to zero gets the rate NaN. It fails:
  one entry with estimate 0 and 3 hours gained gives positive infinity, in both views.
\<close>

theorem zero_estimate_rate_can_be_infinite:
  "admin_avg_efficiency
     [(''Original_Estimate_Hours'', [Num (Fin 0)]),
      (''Efficiency_Gained_Hours'', [Num (Fin 3)])] = Inr PosInf \<and>
   engineer_avg_efficiency
     [(''Original_Estimate_Hours'', [Num (Fin 0)]),
      (''Efficiency_Gained_Hours'', [Num (Fin 3)])] = Inr PosInf"
  by (simp add: admin_avg_efficiency_def engineer_avg_efficiency_def getitem_def bind_err_def
      series_truediv_def series_mean_def)

text \<open>
  C6 (amended): for a group of entries with non-negative hours whose estimate hours sum
  to zero, the average efficiency is computed without an error and is never a finite
  number, so never 0: it is NaN when every entry's gained hours are zero as well, and
  positive infinity as soon as one entry has gained hours.
\<close>

theorem zero_estimate_rate_is_nan_or_infinite:
  assumes oe: "getitem df ''Original_Estimate_Hours'' = Inr (map (\<lambda>e. Num (Fin e)) es)"
    and eg: "getitem df ''Efficiency_Gained_Hours'' = Inr (map (\<lambda>g. Num (Fin g)) gs)"
    and len: "length gs = length es"
    and nonneg: "\<forall>e\<in>set es. 0 \<le> e" "\<forall>g\<in>set gs. 0 \<le> g"
    and total: "sum_list es = 0"
  shows "admin_avg_efficiency df = Inr (if \<forall>g\<in>set gs. g = 0 then NaN else PosInf) \<and>
         engineer_avg_efficiency df = Inr (if \<forall>g\<in>set gs. g = 0 then NaN else PosInf)"
proof -
  from nonneg(1) total have z: "\<forall>e\<in>set es. e = 0" by (rule sum_list_nonneg_zero)
  let ?r = "map (\<lambda>g. if g = 0 then NaN else PosInf) gs"
  have div: "series_truediv (map (\<lambda>g. Num (Fin g)) gs) (map (\<lambda>e. Num (Fin e)) es) = Inr ?r"
    using len z nonneg(2) by (rule series_truediv_zero_estimate)
  have scaled: "map (\<lambda>x. fmul x (Fin 100)) ?r = ?r"
    by (induction gs) auto
  have mean: "series_mean ?r = (if \<forall>g\<in>set gs. g = 0 then NaN else PosInf)"
    by (subst series_mean_nan_or_inf) auto
  have admin: "admin_avg_efficiency df = Inr (if \<forall>g\<in>set gs. g = 0 then NaN else PosInf)"
    unfolding admin_avg_efficiency_def
    by (simp only: eg oe div bind_err_def sum.case scaled mean)
  have engineer: "engineer_avg_efficiency df = admin_avg_efficiency df"
    by (simp add: engineer_avg_efficiency_def admin_avg_efficiency_def)
  from admin engineer show ?thesis by simp
qed

theorem zero_estimate_rate_witness:
  "getitem [(''Original_Estimate_Hours'', [Num (Fin 0), Num (Fin 0)]),
            (''Efficiency_Gained_Hours'', [Num (Fin 0), Num (Fin 0)])]
     ''Original_Estimate_Hours'' = Inr (map (\<lambda>e. Num (Fin e)) [0, 0]) \<and>
   sum_list [0, 0 :: rat] = 0 \<and>
   admin_avg_efficiency
     [(''Original_Estimate_Hours'', [Num (Fin 0), Num (Fin 0)]),
      (''Efficiency_Gained_Hours'', [Num (Fin 0), Num (Fin 0)])] = Inr NaN \<and>
   engineer_avg_efficiency
     [(''Original_Estimate_Hours'', [Num (Fin 0), Num (Fin 0)]),
      (''Efficiency_Gained_Hours'', [Num (Fin 0), Num (Fin 2)])] = Inr PosInf"
  using zero_estimate_rate_is_nan_or_infinite
    [of "[(''Original_Estimate_Hours'', [Num (Fin 0), Num (Fin 0)]),
          (''Efficiency_Gained_Hours'', [Num (Fin 0), Num (Fin 0)])]" "[0, 0]" "[0, 0]"]
    zero_estimate_rate_is_nan_or_infinite
    [of "[(''Original_Estimate_Hours'', [Num (Fin 0), Num (Fin 0)]),
          (''Efficiency_Gained_Hours'', [Num (Fin 0), Num (Fin 2)])]" "[0, 0]" "[0, 2]"]
  by (simp add: getitem_def)

section \<open>Frames and the two loaders\<close>

lemma in_columns_iff: "c \<in> set (df_columns df) \<longleftrightarrow> map_of df c \<noteq> None"
  by (simp add: df_columns_def map_of_eq_None_iff)

lemma map_of_setitem: "map_of (setitem df k v) c = (if c = k then Some v else map_of df c)"
  by (induction df k v rule: setitem.induct) auto

lemma columns_setitem: "set (df_columns (setitem df k v)) = insert k (set (df_columns df))"
  by (induction df k v rule: setitem.induct) (auto simp: df_columns_def)

lemma map_of_drop: "map_of (filter (\<lambda>(c, xs). c \<noteq> k) df) c = (if c = k then None else map_of df c)"
  by (induction df) auto

lemma map_of_ensure_columns:
  "map_of df c = Some xs \<Longrightarrow> map_of (ensure_columns cols df) c = Some xs"
proof (induction cols arbitrary: df)
  case Nil
  then show ?case by simp
next
  case (Cons col cols)
  show ?case
  proof (cases "col \<in> set (df_columns df)")
    case True
    with Cons show ?thesis by simp
  next
    case False
    with Cons.prems have "c \<noteq> col" by (auto simp: in_columns_iff)
    with Cons.prems have "map_of (setitem_scalar df col (Str [])) c = Some xs"
      by (simp add: setitem_scalar_def map_of_setitem)
    from Cons.IH [OF this] False show ?thesis by simp
  qed
qed

lemma columns_ensure_columns_mono:
  "c \<in> set (df_columns df) \<Longrightarrow> c \<in> set (df_columns (ensure_columns cols df))"
  using map_of_ensure_columns [of df c _ cols] by (auto simp: in_columns_iff)

lemma ensure_columns_covers:
  "c \<in> set cols \<Longrightarrow> c \<in> set (df_columns (ensure_columns cols df))"
proof (induction cols arbitrary: df)
  case Nil
  then show ?case by simp
next
  case (Cons col cols)
  show ?case
  proof (cases "c = col")
    case True
    have "c \<in> set (df_columns (if col \<notin> set (df_columns df) then setitem_scalar df col (Str []) else df))"
      using True by (simp add: setitem_scalar_def columns_setitem)
    then show ?thesis by (simp only: ensure_columns.simps columns_ensure_columns_mono)
  next
    case False
    with Cons.prems have "c \<in> set cols" by simp
    from Cons.IH [OF this] show ?thesis by simp
  qed
qed

lemma ensure_columns_present:
  "set cols \<subseteq> set (df_columns df) \<Longrightarrow> ensure_columns cols df = df"
  by (induction cols arbitrary: df) auto

lemma getitem_columns_present:
  "set cols \<subseteq> set (df_columns df) \<Longrightarrow>
   getitem_columns df cols = Inr (map (\<lambda>c. (c, the (map_of df c))) cols)"
  by (induction cols) (auto simp: in_columns_iff)

lemma getitem_columns_all:
  "distinct (df_columns df) \<Longrightarrow> getitem_columns df (df_columns df) = Inr df"
proof (induction df)
  case Nil
  then show ?case by (simp add: df_columns_def)
next
  case (Cons p df)
  obtain k v where p: "p = (k, v)" by (cases p)
  from Cons.prems have nk: "k \<notin> set (df_columns df)" and d: "distinct (df_columns df)"
    by (simp_all add: p df_columns_def)
  have same: "getitem_columns ((k, v) # df) cs = getitem_columns df cs" if "k \<notin> set cs" for cs
    using that by (induction cs) (auto split: option.splits)
  from Cons.IH [OF d] same [OF nk] show ?case
    by (simp add: p df_columns_def)
qed

lemma select_ensure:
  "getitem_columns (ensure_columns cols df) cols =
     Inr (map (\<lambda>c. (c, the (map_of (ensure_columns cols df) c))) cols)"
  by (rule getitem_columns_present) (auto simp: ensure_columns_covers)

lemma map_of_tabulate: "c \<in> set cols \<Longrightarrow> map_of (map (\<lambda>c. (c, f c)) cols) c = Some (f c)"
  by (induction cols) auto

lemma select_ensure_lookup:
  assumes "c \<in> set cols" "map_of df c = Some xs"
  shows "map_of (map (\<lambda>c. (c, the (map_of (ensure_columns cols df) c))) cols) c = Some xs"
  using map_of_tabulate [OF assms(1), of "\<lambda>c. the (map_of (ensure_columns cols df) c)"]
    map_of_ensure_columns [OF assms(2), of cols] by simp



lemma s3_empty_eq: "s3_create_empty_dataframe = create_empty_dataframe"
  by (simp add: s3_create_empty_dataframe_def create_empty_dataframe_def DB_COLUMNS_def)

lemma columns_create_empty: "df_columns create_empty_dataframe = DB_COLUMNS"
  by (simp add: create_empty_dataframe_def df_columns_def comp_def)

lemma distinct_DB_COLUMNS: "distinct DB_COLUMNS"
  by (simp add: DB_COLUMNS_def)


lemma getitem_Inr_iff: "getitem df c = Inr xs \<longleftrightarrow> map_of df c = Some xs"
  by (simp add: getitem_def split: option.splits)

lemma load_table_nonlegacy:
  "\<not> is_legacy df \<Longrightarrow> load_excel_data parse (Table df) =
     Inr (map (\<lambda>c. (c, the (map_of (ensure_columns DB_COLUMNS df) c))) DB_COLUMNS)"
  by (simp add: load_excel_data_def load_excel_data_try_def path_exists_def bind_err_def
      select_ensure)

lemma map_err_Inr_nth:
  "map_err f xs = Inr ys \<Longrightarrow> length ys = length xs \<and> (\<forall>i<length xs. f (xs ! i) = Inr (ys ! i))"
proof (induction xs arbitrary: ys)
  case Nil
  then show ?case by simp
next
  case (Cons x xs)
  from Cons.prems obtain y ys' where fx: "f x = Inr y" and rest: "map_err f xs = Inr ys'"
    and ys: "ys = y # ys'"
    by (auto split: sum.splits)
  from Cons.IH [OF rest] fx ys show ?case
    by (auto simp: nth_Cons split: nat.splits)
qed

lemma map_err_total: "\<forall>x\<in>set xs. f x = Inr (g x) \<Longrightarrow> map_err f xs = Inr (map g xs)"
  by (induction xs) auto

lemma to_datetime_cell_shape:
  "to_datetime_cell parse c = Inr y \<Longrightarrow> (\<exists>d t. y = Timestamp d t) \<or> y = NaT"
  by (induction parse c rule: to_datetime_cell.induct) (auto split: parsed.splits)

lemma to_datetime_shape:
  assumes "map_err (to_datetime_cell parse) week = Inr stamps"
  shows "\<forall>y\<in>set stamps. (\<exists>d t. y = Timestamp d t) \<or> y = NaT"
proof
  fix y assume "y \<in> set stamps"
  then obtain i where i: "i < length stamps" and y: "y = stamps ! i"
    by (auto simp: in_set_conv_nth)
  from map_err_Inr_nth [OF assms] i have "to_datetime_cell parse (week ! i) = Inr (stamps ! i)"
    by simp
  from to_datetime_cell_shape [OF this] y show "(\<exists>d t. y = Timestamp d t) \<or> y = NaT" by simp
qed

lemma dt_date_after_to_datetime:
  assumes "\<forall>y\<in>set stamps. (\<exists>d t. y = Timestamp d t) \<or> y = NaT"
  shows "map_err dt_date_cell stamps =
     Inr (map (\<lambda>c. case c of Timestamp d t \<Rightarrow> Date d | _ \<Rightarrow> NaT) stamps)"
  by (rule map_err_total) (use assms in auto)

lemma add_days_after_dt_date:
  assumes "\<forall>y\<in>set stamps. (\<exists>d t. y = Timestamp d t) \<or> y = NaT"
  shows "map_err (add_days_cell n) (map (\<lambda>c. case c of Timestamp d t \<Rightarrow> Date d | _ \<Rightarrow> NaT) stamps) =
     Inr (map (\<lambda>c. case c of Timestamp d t \<Rightarrow> Date (d + n) | _ \<Rightarrow> NaT) stamps)"
  using assms by (induction stamps) auto

lemma convert_legacy_week_ok:
  assumes week: "getitem df ''Week'' = Inr week"
    and stamps: "map_err (to_datetime_cell parse) week = Inr stamps"
  shows "convert_legacy_week parse df =
     Inr (filter (\<lambda>(c, xs). c \<noteq> ''Week'')
       (setitem (setitem df ''Week_Start''
            (map (\<lambda>c. case c of Timestamp d t \<Rightarrow> Date d | _ \<Rightarrow> NaT) stamps))
          ''Week_End'' (map (\<lambda>c. case c of Timestamp d t \<Rightarrow> Date (d + 6) | _ \<Rightarrow> NaT) stamps)))"
proof -
  note shape = to_datetime_shape [OF stamps]
  let ?dates = "map (\<lambda>c. case c of Timestamp d t \<Rightarrow> Date d | _ \<Rightarrow> NaT) stamps"
  have g: "getitem (setitem df ''Week_Start'' ?dates) ''Week_Start'' = Inr ?dates"
    by (simp add: getitem_Inr_iff map_of_setitem)
  from week have "''Week'' \<in> set (df_columns df)"
    by (simp add: in_columns_iff getitem_Inr_iff)
  then have inw: "''Week'' \<in> set (df_columns (setitem (setitem df ''Week_Start'' ?dates) ''Week_End'' ends))" for ends
    by (simp add: columns_setitem)
  show ?thesis
    unfolding convert_legacy_week_def
    by (simp only: week stamps dt_date_after_to_datetime [OF shape] g Let_def
        add_days_after_dt_date [OF shape] bind_err_def sum.case drop_column_def inw if_True)
qed

lemma convert_legacy_week_keeps:
  assumes "convert_legacy_week parse df = Inr df1"
    and "c \<noteq> ''Week''" "c \<noteq> ''Week_Start''" "c \<noteq> ''Week_End''"
  shows "map_of df1 c = map_of df c"
proof -
  from assms(1) obtain a b where "df1 = filter (\<lambda>(c, xs). c \<noteq> ''Week'')
      (setitem (setitem df ''Week_Start'' a) ''Week_End'' b)"
    by (auto simp: convert_legacy_week_def bind_err_def Let_def drop_column_def
        split: sum.splits if_splits)
  with assms(2-) show ?thesis by (simp add: map_of_drop map_of_setitem)
qed

lemma load_try_keeps:
  assumes "load_excel_data_try parse (Table df) = Inr out"
    and "c \<in> set DB_COLUMNS" "c \<noteq> ''Week''" "c \<noteq> ''Week_Start''" "c \<noteq> ''Week_End''"
    and "map_of df c = Some xs"
  shows "map_of out c = Some xs"
proof (cases "is_legacy df")
  case False
  with assms(1) have "out = map (\<lambda>c. (c, the (map_of (ensure_columns DB_COLUMNS df) c))) DB_COLUMNS"
    by (simp add: load_excel_data_try_def bind_err_def select_ensure)
  with select_ensure_lookup [OF assms(2) assms(6)] show ?thesis by simp
next
  case True
  with assms(1) obtain df1 where conv: "convert_legacy_week parse df = Inr df1"
    and out: "out = map (\<lambda>c. (c, the (map_of (ensure_columns DB_COLUMNS df1) c))) DB_COLUMNS"
    by (auto simp: load_excel_data_try_def bind_err_def select_ensure split: sum.splits)
  from convert_legacy_week_keeps [OF conv assms(3-5)] assms(6) have "map_of df1 c = Some xs"
    by simp
  from select_ensure_lookup [OF assms(2) this] out show ?thesis by simp
qed

lemma load_excel_data_handles:
  "load_excel_data parse s =
     (case load_excel_data_try parse s of Inl e \<Rightarrow> Inr create_empty_dataframe | Inr df \<Rightarrow> Inr df)"
  by (cases s) (simp_all add: load_excel_data_def path_exists_def load_excel_data_try_def
      bind_err_def)

text \<open>
  C7: DataManager.load_excel_data always returns a frame and never raises. For a path that
  does not exist it returns the empty frame, and so it does for a file that cannot be
  read as a table; whatever is raised inside its try block ends in the empty frame, which
  has the canonical columns and no rows.
\<close>

theorem load_excel_data_never_raises:
  "(\<exists>out. load_excel_data parse s = Inr out) \<and>
   load_excel_data parse Missing = Inr create_empty_dataframe \<and>
   load_excel_data parse Unreadable = Inr create_empty_dataframe \<and>
   (load_excel_data_try parse s = Inl e \<longrightarrow> load_excel_data parse s = Inr create_empty_dataframe) \<and>
   df_len create_empty_dataframe = 0 \<and>
   df_columns create_empty_dataframe = DB_COLUMNS"
proof (intro conjI impI)
  show "\<exists>out. load_excel_data parse s = Inr out"
    by (simp add: load_excel_data_handles split: sum.splits)
  show "load_excel_data parse Missing = Inr create_empty_dataframe"
    by (simp add: load_excel_data_def path_exists_def)
  show "load_excel_data parse Unreadable = Inr create_empty_dataframe"
    by (simp add: load_excel_data_handles load_excel_data_try_def bind_err_def)
  show "df_len create_empty_dataframe = 0"
    by (simp add: create_empty_dataframe_def DB_COLUMNS_def df_len_def)
  show "df_columns create_empty_dataframe = DB_COLUMNS"
    by (rule columns_create_empty)
next
  assume "load_excel_data_try parse s = Inl e"
  then show "load_excel_data parse s = Inr create_empty_dataframe"
    by (simp add: load_excel_data_handles)
qed

lemma legacy_week_only: "is_legacy [(''Week'', xs)]"
  by (simp add: is_legacy_def df_columns_def)

theorem load_excel_data_never_raises_witness:
  "load_excel_data_try parse_nothing (Table [(''Week'', [Str ''next week''])]) = Inl ParseError \<and>
   load_excel_data parse_nothing (Table [(''Week'', [Str ''next week''])]) =
     Inr create_empty_dataframe"
proof -
  have "load_excel_data_try parse_nothing (Table [(''Week'', [Str ''next week''])]) = Inl ParseError"
    by (simp add: load_excel_data_try_def legacy_week_only convert_legacy_week_def getitem_def
        bind_err_def parse_nothing_def)
  with load_excel_data_never_raises
    [of parse_nothing "Table [(''Week'', [Str ''next week''])]" ParseError]
  show ?thesis by simp
qed

lemma not_legacy_without_week: "''Week'' \<notin> set (df_columns df) \<Longrightarrow> \<not> is_legacy df"
  by (simp add: is_legacy_def)

lemma load_try_canonical:
  assumes "df_columns df = DB_COLUMNS"
  shows "load_excel_data_try parse (Table df) = Inr df"
proof -
  have nl: "\<not> is_legacy df" by (simp add: is_legacy_def assms DB_COLUMNS_def)
  have e: "ensure_columns DB_COLUMNS df = df" by (rule ensure_columns_present) (simp add: assms)
  have g: "getitem_columns df DB_COLUMNS = Inr df"
    using getitem_columns_all [of df] distinct_DB_COLUMNS by (simp add: assms)
  show ?thesis by (simp add: load_excel_data_try_def bind_err_def nl e g)
qed

text \<open>
  C4 (as stated): after load_excel_data every entry with Copilot_Used = No has
  Efficiency_Gained_Hours = 0. It fails: a stored row with No and 3 hours loads unchanged.
\<close>

theorem load_keeps_gain_without_assistant:
  "bind_err (load_excel_data parse_nothing
       (Table [(''Copilot_Used'', [Str ''No'']), (''Efficiency_Gained_Hours'', [Num (Fin 3)])]))
     (\<lambda>out. Inr (no_gain_without_assistant out)) = Inr False"
proof -
  let ?df = "[(''Copilot_Used'', [Str ''No'']), (''Efficiency_Gained_Hours'', [Num (Fin 3)])]"
  let ?out = "map (\<lambda>c. (c, the (map_of (ensure_columns DB_COLUMNS ?df) c))) DB_COLUMNS"
  have nl: "\<not> is_legacy ?df" by (rule not_legacy_without_week) (simp add: df_columns_def)
  have u: "map_of ?out ''Copilot_Used'' = Some [Str ''No'']"
    by (rule select_ensure_lookup) (simp_all add: DB_COLUMNS_def)
  have g: "map_of ?out ''Efficiency_Gained_Hours'' = Some [Num (Fin 3)]"
    by (rule select_ensure_lookup) (simp_all add: DB_COLUMNS_def)
  have "\<not> no_gain_without_assistant ?out"
    unfolding no_gain_without_assistant_def by (simp only: u g) (simp add: gain_allowed_def)
  then show ?thesis
    by (simp add: load_table_nonlegacy [OF nl] bind_err_def)
qed

text \<open>
  C4 (amended): a load that succeeds returns the stored Copilot_Used and
  Efficiency_Gained_Hours columns unchanged, so the loaded frame satisfies "No implies 0
  hours gained" exactly when the stored sheet does. The invariant is set at entry: the
  row the form submits has Efficiency_Gained_Hours = 0 whenever Copilot_Used is not Yes.
\<close>

theorem gain_invariant_kept_by_load_and_set_by_form:
  "(load_excel_data_try parse (Table df) = Inr out \<longrightarrow>
    map_of df ''Copilot_Used'' = Some used \<longrightarrow>
    map_of df ''Efficiency_Gained_Hours'' = Some gained \<longrightarrow>
      load_excel_data parse (Table df) = Inr out \<and>
      getitem out ''Copilot_Used'' = Inr used \<and>
      getitem out ''Efficiency_Gained_Hours'' = Inr gained \<and>
      no_gain_without_assistant out = no_gain_without_assistant df) \<and>
   (copilot_used \<noteq> ''Yes'' \<longrightarrow>
      map_of (submitted_row week_start week_end story_id developer_name team_name
                original_estimate time_saved copilot_used category selected_areas notes)
        ''Efficiency_Gained_Hours'' = Some (Num (Fin 0)))"
proof (intro conjI impI)
  assume t: "load_excel_data_try parse (Table df) = Inr out"
    and u: "map_of df ''Copilot_Used'' = Some used"
    and g: "map_of df ''Efficiency_Gained_Hours'' = Some gained"
  from t show "load_excel_data parse (Table df) = Inr out"
    by (simp add: load_excel_data_handles)
  have u': "map_of out ''Copilot_Used'' = Some used"
    by (rule load_try_keeps [OF t _ _ _ _ u]) (simp_all add: DB_COLUMNS_def)
  have g': "map_of out ''Efficiency_Gained_Hours'' = Some gained"
    by (rule load_try_keeps [OF t _ _ _ _ g]) (simp_all add: DB_COLUMNS_def)
  from u' show "getitem out ''Copilot_Used'' = Inr used" by (simp add: getitem_Inr_iff)
  from g' show "getitem out ''Efficiency_Gained_Hours'' = Inr gained"
    by (simp add: getitem_Inr_iff)
  show "no_gain_without_assistant out = no_gain_without_assistant df"
    by (simp add: no_gain_without_assistant_def u g u' g')
next
  assume "copilot_used \<noteq> ''Yes''"
  then show "map_of (submitted_row week_start week_end story_id developer_name team_name
                original_estimate time_saved copilot_used category selected_areas notes)
        ''Efficiency_Gained_Hours'' = Some (Num (Fin 0))"
    by (simp add: submitted_row_def new_row_def efficiency_gained_def)
qed

theorem gain_invariant_witness:
  "load_excel_data_try parse_nothing (Table grace_lee_entries) = Inr grace_lee_entries \<and>
   map_of grace_lee_entries ''Copilot_Used'' = Some [Str ''Yes'', Str ''No''] \<and>
   map_of grace_lee_entries ''Efficiency_Gained_Hours'' = Some [Num (Fin 3), Num (Fin 0)] \<and>
   load_excel_data parse_nothing (Table grace_lee_entries) = Inr grace_lee_entries \<and>
   no_gain_without_assistant grace_lee_entries \<and>
   ''No'' \<noteq> ''Yes'' \<and>
   map_of (submitted_row ''2024-01-01'' ''2024-01-07'' ''ENG-2'' ''Grace Lee'' ''Platform Team''
             5 4 ''No'' ''Testing'' [] [])
     ''Efficiency_Gained_Hours'' = Some (Num (Fin 0))"
proof -
  have cols: "df_columns grace_lee_entries = DB_COLUMNS"
    by (simp add: grace_lee_entries_def DB_COLUMNS_def df_columns_def)
  have t: "load_excel_data_try parse_nothing (Table grace_lee_entries) = Inr grace_lee_entries"
    by (rule load_try_canonical [OF cols])
  have u: "map_of grace_lee_entries ''Copilot_Used'' = Some [Str ''Yes'', Str ''No'']"
    and g: "map_of grace_lee_entries ''Efficiency_Gained_Hours'' = Some [Num (Fin 3), Num (Fin 0)]"
    by (simp_all add: grace_lee_entries_def)
  have inv: "no_gain_without_assistant grace_lee_entries"
    unfolding no_gain_without_assistant_def by (simp only: u g) (simp add: gain_allowed_def)
  from gain_invariant_kept_by_load_and_set_by_form
    [of parse_nothing grace_lee_entries grace_lee_entries "[Str ''Yes'', Str ''No'']"
        "[Num (Fin 3), Num (Fin 0)]" "''No''" "''2024-01-01''" "''2024-01-07''" "''ENG-2''"
        "''Grace Lee''" "''Platform Team''" 5 4 "''Testing''" "[]" "[]"]
    t u g inv
  show ?thesis by simp
qed

section \<open>The S3 backend beside the local one\<close>

lemma s3_load_excel_data_empty: "s3_load_excel_data s = Inr s3_create_empty_dataframe"
  by (simp add: s3_load_excel_data_def s3_load_excel_data_try_def read_excel_streaming_body_def
      bind_err_def)

lemma getitem_create_empty:
  "c \<in> set DB_COLUMNS \<Longrightarrow> getitem create_empty_dataframe c = Inr []"
  by (simp add: getitem_Inr_iff create_empty_dataframe_def map_of_tabulate)

lemma local_legacy_week_migration:
  assumes legacy: "is_legacy df"
    and week: "getitem df ''Week'' = Inr week"
    and stamps: "map_err (to_datetime_cell parse) week = Inr stamps"
  shows "\<exists>out ws we. load_excel_data parse (Table df) = Inr out \<and>
            getitem out ''Week_Start'' = Inr ws \<and> getitem out ''Week_End'' = Inr we \<and>
            length ws = length week \<and> length we = length week \<and>
            (\<forall>i<length week. \<forall>d t. to_datetime_cell parse (week ! i) = Inr (Timestamp d t) \<longrightarrow>
               ws ! i = Date d \<and> we ! i = Date (d + 6))"
proof -
  let ?ws = "map (\<lambda>c. case c of Timestamp d t \<Rightarrow> Date d | _ \<Rightarrow> NaT) stamps"
  let ?we = "map (\<lambda>c. case c of Timestamp d t \<Rightarrow> Date (d + 6) | _ \<Rightarrow> NaT) stamps"
  let ?df1 = "filter (\<lambda>(c, xs). c \<noteq> ''Week'') (setitem (setitem df ''Week_Start'' ?ws) ''Week_End'' ?we)"
  let ?out = "map (\<lambda>c. (c, the (map_of (ensure_columns DB_COLUMNS ?df1) c))) DB_COLUMNS"
  note nth = map_err_Inr_nth [OF stamps]
  have load: "load_excel_data parse (Table df) = Inr ?out"
    by (simp add: load_excel_data_def load_excel_data_try_def path_exists_def bind_err_def
        legacy convert_legacy_week_ok [OF week stamps] select_ensure)
  have "map_of ?df1 ''Week_Start'' = Some ?ws"
    by (simp add: map_of_drop map_of_setitem)
  then have ws: "getitem ?out ''Week_Start'' = Inr ?ws"
    unfolding getitem_Inr_iff by (rule select_ensure_lookup [rotated]) (simp add: DB_COLUMNS_def)
  have "map_of ?df1 ''Week_End'' = Some ?we"
    by (simp add: map_of_drop map_of_setitem)
  then have we: "getitem ?out ''Week_End'' = Inr ?we"
    unfolding getitem_Inr_iff by (rule select_ensure_lookup [rotated]) (simp add: DB_COLUMNS_def)
  have rows: "\<forall>i<length week. \<forall>d t. to_datetime_cell parse (week ! i) = Inr (Timestamp d t) \<longrightarrow>
      ?ws ! i = Date d \<and> ?we ! i = Date (d + 6)"
    using nth by auto
  from load ws we nth rows show ?thesis
    by (intro exI [of _ ?out] exI [of _ ?ws] exI [of _ ?we]) simp
qed

text \<open>
  C2: in both backends a sheet in the legacy layout, with the single column Week of value
  W, loads as rows with week_start = W and week_end = W + 6 days. The local backend does
  so (\<open>local_legacy_week_migration\<close>). The S3 backend does not: its read of the object
  raises, the handler returns the empty frame, and no row comes back. For the sheet with
  the one Week value of day 19723 the local backend gives day 19723 and day 19729.
\<close>

theorem s3_load_drops_legacy_rows:
  "is_legacy [(''Week'', [Timestamp 19723 0])] \<and>
   s3_load_excel_data (Table [(''Week'', [Timestamp 19723 0])]) = Inr s3_create_empty_dataframe \<and>
   getitem s3_create_empty_dataframe ''Week_Start'' = Inr [] \<and>
   getitem s3_create_empty_dataframe ''Week_End'' = Inr [] \<and>
   bind_err (load_excel_data parse_nothing (Table [(''Week'', [Timestamp 19723 0])]))
     (\<lambda>out. getitem out ''Week_Start'') = Inr [Date 19723] \<and>
   bind_err (load_excel_data parse_nothing (Table [(''Week'', [Timestamp 19723 0])]))
     (\<lambda>out. getitem out ''Week_End'') = Inr [Date 19729]"
proof -
  let ?df = "[(''Week'', [Timestamp 19723 0])]"
  have g: "getitem ?df ''Week'' = Inr [Timestamp 19723 0]" by (simp add: getitem_def)
  have m: "map_err (to_datetime_cell parse_nothing) [Timestamp 19723 0] = Inr [Timestamp 19723 0]"
    by simp
  from local_legacy_week_migration [OF legacy_week_only g m]
  obtain out ws we where l: "load_excel_data parse_nothing (Table ?df) = Inr out"
    and ws: "getitem out ''Week_Start'' = Inr ws" and we: "getitem out ''Week_End'' = Inr we"
    and len: "length ws = 1" "length we = 1"
    and r: "ws ! 0 = Date 19723 \<and> we ! 0 = Date (19723 + 6)"
    by auto
  from len r have "ws = [Date 19723]" "we = [Date 19729]"
    by (cases ws; cases we; simp)+
  with l ws we have local:
    "bind_err (load_excel_data parse_nothing (Table ?df)) (\<lambda>out. getitem out ''Week_Start'') =
       Inr [Date 19723]"
    "bind_err (load_excel_data parse_nothing (Table ?df)) (\<lambda>out. getitem out ''Week_End'') =
       Inr [Date 19729]"
    by (simp_all add: bind_err_def)
  have e: "getitem s3_create_empty_dataframe ''Week_Start'' = Inr []"
    "getitem s3_create_empty_dataframe ''Week_End'' = Inr []"
    by (simp_all add: s3_empty_eq getitem_create_empty DB_COLUMNS_def)
  from local e legacy_week_only s3_load_excel_data_empty [of "Table ?df"] show ?thesis
    by simp
qed

lemma load_canonical_table:
  "df_columns df = DB_COLUMNS \<Longrightarrow> load_excel_data parse (Table df) = Inr df"
  by (simp add: load_excel_data_handles load_try_canonical)

text \<open>
  C3: for the same stored content the local and the S3 backend return the same rows with
  the same columns in the same order. The S3 backend breaks it: for the stored sheet of
  the two Grace Lee entries the local backend returns both rows and the S3 backend
  returns the empty frame.
\<close>

theorem s3_load_loses_stored_rows:
  "load_excel_data parse_nothing (Table grace_lee_entries) = Inr grace_lee_entries \<and>
   s3_load_excel_data (Table grace_lee_entries) = Inr create_empty_dataframe \<and>
   df_len grace_lee_entries = 2 \<and> df_len create_empty_dataframe = 0"
proof -
  have cols: "df_columns grace_lee_entries = DB_COLUMNS"
    by (simp add: grace_lee_entries_def DB_COLUMNS_def df_columns_def)
  have "df_len grace_lee_entries = 2" by (simp add: grace_lee_entries_def df_len_def)
  moreover have "df_len create_empty_dataframe = 0"
    by (simp add: create_empty_dataframe_def DB_COLUMNS_def df_len_def)
  ultimately show ?thesis
    using load_canonical_table [OF cols, of parse_nothing]
      s3_load_excel_data_empty [of "Table grace_lee_entries"]
    by (simp add: s3_empty_eq)
qed







end
